theory Spec2Isabelle
  imports Main
begin

section \<open>Values, exceptions and requests shared by both components\<close>

text \<open>
  The two React components \<^verbatim>\<open>Dashboard.tsx\<close> and \<^verbatim>\<open>UserSearch.tsx\<close> are modelled as
  functions from the values a handler can see to the list of effects it performs, in the
  order of the source lines: calls of the state setters, and the calls that leave the
  component (\<^verbatim>\<open>axios.get\<close>, \<^verbatim>\<open>postMessage\<close>, \<^verbatim>\<open>setTimeout\<close>, \<^verbatim>\<open>console.error\<close>).
  An interpreter applies the setter calls to a record of the component's state.

  A handler of a function component reads the state through the constants of the render
  that created it (\<^verbatim>\<open>const [page, setPage] = useState(1)\<close>): a setter call does not change
  what the running handler, or a callback it created, reads. A handler that reads state
  therefore takes the rendered state as an argument, and the setter calls it makes are
  effects on the state that is current when they are applied.
\<close>

text \<open>
  \<^verbatim>\<open>event.data\<close> of a message event, and what \<^verbatim>\<open>JSON.parse\<close> returns. The handlers only
  test \<^verbatim>\<open>typeof\<close> and truthiness, so numbers are kept as integers.
\<close>

datatype jsvalue =
    JUndefined
  | JNull
  | JBoolean bool
  | JNumber int
  | JString string
  | JArray "jsvalue list"
  | JObject "(string \<times> jsvalue) list"

text \<open>The results of \<^verbatim>\<open>typeof\<close> that the handlers tell apart.\<close>

datatype jstype = TypeString | TypeObject | TypeOther

fun typeof :: "jsvalue \<Rightarrow> jstype" where
  "typeof (JString s) = TypeString"
| "typeof JNull = TypeObject"
| "typeof (JArray vs) = TypeObject"
| "typeof (JObject kvs) = TypeObject"
| "typeof JUndefined = TypeOther"
| "typeof (JBoolean b) = TypeOther"
| "typeof (JNumber n) = TypeOther"

text \<open>Truthiness, as \<^verbatim>\<open>!chatwootData\<close> tests it.\<close>

fun truthy :: "jsvalue \<Rightarrow> bool" where
  "truthy JUndefined = False"
| "truthy JNull = False"
| "truthy (JBoolean b) = b"
| "truthy (JNumber n) = (n \<noteq> 0)"
| "truthy (JString s) = (s \<noteq> [])"
| "truthy (JArray vs) = True"
| "truthy (JObject kvs) = True"

text \<open>
  What the \<^verbatim>\<open>try\<close> blocks can throw: \<^verbatim>\<open>JSON.parse\<close> on a malformed string,
  \<^verbatim>\<open>new Error('Invalid data format')\<close>, \<^verbatim>\<open>new Error('WooCommerce settings are not
  configured. ...')\<close>, and the rejection of \<^verbatim>\<open>axios.get\<close>, whose \<^verbatim>\<open>response\<close> (status and
  status text) is present when the server answered.
\<close>

datatype exn =
    SyntaxError
  | InvalidDataFormat
  | ConfigurationMissing
  | AxiosError "(nat \<times> string) option"

text \<open>How an awaited \<^verbatim>\<open>axios.get\<close> settles; \<open>Fulfilled\<close> carries \<^verbatim>\<open>response.data\<close>.\<close>

datatype 'a outcome = Fulfilled 'a | Rejected "(nat \<times> string) option"

text \<open>
  The three \<^verbatim>\<open>axios.get\<close> calls: URL, basic-auth user name and password, and the
  query parameters (\<^verbatim>\<open>email\<close>; \<^verbatim>\<open>email\<close>, \<^verbatim>\<open>per_page\<close>, \<^verbatim>\<open>page\<close>; \<^verbatim>\<open>customer\<close>).
\<close>

datatype request =
    GetCustomers string string string string
  | GetCustomersPage string string string string int int
  | GetOrders string string string int

text \<open>
  The configuration provider: the three \<^verbatim>\<open>localStorage.getItem\<close> results, \<open>None\<close> for
  \<^verbatim>\<open>null\<close>.
\<close>

record config =
  woocommerce_url :: "string option"
  woocommerce_consumer_key :: "string option"
  woocommerce_consumer_secret :: "string option"

text \<open>
  Dashboard.tsx lines 97-103 and UserSearch.tsx lines 67-73: the guard
  \<^verbatim>\<open>!wooCommerceUrl || !consumerKey || !consumerSecret\<close> holds when one of the three is
  \<^verbatim>\<open>null\<close> or the empty string, and then the configuration error is thrown.
\<close>

definition credentials :: "config \<Rightarrow> exn + (string \<times> string \<times> string)" where
  "credentials cfg =
     (case woocommerce_url cfg of
        None \<Rightarrow> Inl ConfigurationMissing
      | Some wooCommerceUrl \<Rightarrow>
     (case woocommerce_consumer_key cfg of
        None \<Rightarrow> Inl ConfigurationMissing
      | Some consumerKey \<Rightarrow>
     (case woocommerce_consumer_secret cfg of
        None \<Rightarrow> Inl ConfigurationMissing
      | Some consumerSecret \<Rightarrow>
          if wooCommerceUrl = [] \<or> consumerKey = [] \<or> consumerSecret = []
          then Inl ConfigurationMissing
          else Inr (wooCommerceUrl, consumerKey, consumerSecret))))"

text \<open>
  Dashboard.tsx lines 57-64 and UserSearch.tsx lines 46-53: a string is parsed, an object
  (\<^verbatim>\<open>typeof\<close> gives \<^verbatim>\<open>'object'\<close>, also for \<^verbatim>\<open>null\<close> and arrays) is taken as it is, anything
  else throws. \<^verbatim>\<open>JSON.parse\<close> is the language's own function and is a parameter: \<open>None\<close>
  when it throws a syntax error.
\<close>

fun decode :: "(string \<Rightarrow> jsvalue option) \<Rightarrow> jsvalue \<Rightarrow> exn + jsvalue" where
  "decode JSON_parse (JString s) =
     (case JSON_parse s of None \<Rightarrow> Inl SyntaxError | Some eventData \<Rightarrow> Inr eventData)"
| "decode JSON_parse d =
     (if typeof d = TypeObject then Inr d else Inl InvalidDataFormat)"

section \<open>Dashboard.tsx\<close>

record wooCommerceCustomer =
  c_id :: int
  c_email :: string
  c_first_name :: string
  c_last_name :: string

record wooCommerceOrder =
  o_id :: int
  o_number :: string
  o_status :: string
  o_total :: string
  o_date_created :: string

text \<open>
  The four messages the dashboard shows: line 71 (\<^verbatim>\<open>Failed to process Chatwoot data.\<close>),
  line 83 (\<^verbatim>\<open>No response received from Chatwoot.\<close>), line 89 (\<^verbatim>\<open>Failed to request
  Chatwoot data.\<close>) and line 133 (\<^verbatim>\<open>Failed to search WooCommerce data.\<close>).
\<close>

datatype message = ProcessFailed | NoResponse | RequestFailed | SearchFailed

record dashboard =
  chatwootData :: jsvalue
  error :: "message option"
  isLoading :: bool
  customer :: "wooCommerceCustomer option"
  orders :: "wooCommerceOrder list"
  searchError :: "message option"

text \<open>The \<^verbatim>\<open>useState\<close> initial values, lines 35-40.\<close>

definition initial :: dashboard where
  "initial = \<lparr>chatwootData = JNull, error = None, isLoading = False, customer = None,
     orders = [], searchError = None\<rparr>"

text \<open>
  \<open>SetTimeout v ms\<close> is the call of line 81: the callback closes over the
  \<^verbatim>\<open>chatwootData\<close> constant of the render that created it, whose value is \<open>v\<close>.
\<close>

datatype effect =
    SetChatwootData jsvalue
  | SetError "message option"
  | SetIsLoading bool
  | SetCustomer "wooCommerceCustomer option"
  | SetOrders "wooCommerceOrder list"
  | SetSearchError "message option"
  | PostMessage string
  | SetTimeout jsvalue nat
  | AxiosGet request
  | ConsoleError

fun apply_effect :: "effect \<Rightarrow> dashboard \<Rightarrow> dashboard" where
  "apply_effect (SetChatwootData v) s = s\<lparr>chatwootData := v\<rparr>"
| "apply_effect (SetError e) s = s\<lparr>error := e\<rparr>"
| "apply_effect (SetIsLoading b) s = s\<lparr>isLoading := b\<rparr>"
| "apply_effect (SetCustomer c) s = s\<lparr>customer := c\<rparr>"
| "apply_effect (SetOrders os) s = s\<lparr>orders := os\<rparr>"
| "apply_effect (SetSearchError e) s = s\<lparr>searchError := e\<rparr>"
| "apply_effect (PostMessage m) s = s"
| "apply_effect (SetTimeout v ms) s = s"
| "apply_effect (AxiosGet r) s = s"
| "apply_effect ConsoleError s = s"

fun run :: "effect list \<Rightarrow> dashboard \<Rightarrow> dashboard" where
  "run [] s = s"
| "run (e # es) s = run es (apply_effect e s)"

text \<open>The network requests, and the error messages set, in a list of effects.\<close>

fun requests :: "effect list \<Rightarrow> request list" where
  "requests [] = []"
| "requests (AxiosGet r # es) = r # requests es"
| "requests (e # es) = requests es"

fun reported :: "effect list \<Rightarrow> message list" where
  "reported [] = []"
| "reported (SetError (Some m) # es) = m # reported es"
| "reported (SetSearchError (Some m) # es) = m # reported es"
| "reported (e # es) = reported es"

text \<open>The values that the callbacks of the timers set in a list of effects closed over.\<close>

fun timers :: "effect list \<Rightarrow> jsvalue list" where
  "timers [] = []"
| "timers (SetTimeout v ms # es) = v # timers es"
| "timers (e # es) = timers es"

text \<open>\<^verbatim>\<open>handleChatwootMessage\<close>, lines 55-74.\<close>

definition handleChatwootMessage :: "(string \<Rightarrow> jsvalue option) \<Rightarrow> jsvalue \<Rightarrow> effect list" where
  "handleChatwootMessage JSON_parse d =
     (case decode JSON_parse d of
        Inr eventData \<Rightarrow> [SetChatwootData eventData, SetError None, SetIsLoading False]
      | Inl err \<Rightarrow> [ConsoleError, SetError (Some ProcessFailed), SetIsLoading False])"

text \<open>
  \<^verbatim>\<open>fetchChatwootData\<close>, lines 76-92, called from the button of the render of state \<open>s\<close>.
  \<^verbatim>\<open>postMessage\<close> of a string to the parent does not throw, so the \<^verbatim>\<open>catch\<close> of lines
  87-91 is not reached.
\<close>

definition fetchChatwootData :: "dashboard \<Rightarrow> effect list" where
  "fetchChatwootData s =
     [SetIsLoading True, SetError None,
      PostMessage ''chatwoot-dashboard-app:fetch-info'',
      SetTimeout (chatwootData s) 5000]"

text \<open>
  The callback of lines 81-86, run when the timer fires; its argument is the value of
  \<^verbatim>\<open>chatwootData\<close> that \<open>SetTimeout\<close> recorded.
\<close>

definition timeoutCallback :: "jsvalue \<Rightarrow> effect list" where
  "timeoutCallback captured =
     (if \<not> truthy captured then [SetError (Some NoResponse), SetIsLoading False] else [])"

text \<open>
  The \<^verbatim>\<open>try\<close> block of \<^verbatim>\<open>searchWooCommerceData\<close>, lines 96-130: the effects performed
  and the exception that ended the block, if one did. The two arguments after the email
  are how the customer request and the orders request settle; \<^verbatim>\<open>response.data\<close> is taken
  at its declared type.
\<close>

definition searchWooCommerceData_try ::
  "config \<Rightarrow> string \<Rightarrow> wooCommerceCustomer list outcome \<Rightarrow> wooCommerceOrder list outcome
     \<Rightarrow> effect list \<times> exn option" where
  "searchWooCommerceData_try cfg email customerResponse ordersResponse =
     (case credentials cfg of
        Inl err \<Rightarrow> ([], Some err)
      | Inr (wooCommerceUrl, consumerKey, consumerSecret) \<Rightarrow>
     (let getCustomers = AxiosGet (GetCustomers (wooCommerceUrl @ ''/wp-json/wc/v3/customers'')
            consumerKey consumerSecret email)
      in case customerResponse of
        Rejected r \<Rightarrow> ([getCustomers], Some (AxiosError r))
      | Fulfilled [] \<Rightarrow> ([getCustomers, SetCustomer None, SetOrders []], None)
      | Fulfilled (c # cs) \<Rightarrow>
     (let getOrders = AxiosGet (GetOrders (wooCommerceUrl @ ''/wp-json/wc/v3/orders'')
            consumerKey consumerSecret (c_id c))
      in case ordersResponse of
        Rejected r \<Rightarrow> ([getCustomers, SetCustomer (Some c), getOrders], Some (AxiosError r))
      | Fulfilled os \<Rightarrow> ([getCustomers, SetCustomer (Some c), getOrders, SetOrders os], None))))"

text \<open>\<^verbatim>\<open>searchWooCommerceData\<close>, lines 94-135.\<close>

definition searchWooCommerceData ::
  "config \<Rightarrow> string \<Rightarrow> wooCommerceCustomer list outcome \<Rightarrow> wooCommerceOrder list outcome
     \<Rightarrow> effect list" where
  "searchWooCommerceData cfg email customerResponse ordersResponse =
     SetSearchError None #
     (case searchWooCommerceData_try cfg email customerResponse ordersResponse of
        (effs, None) \<Rightarrow> effs
      | (effs, Some err) \<Rightarrow> effs @ [ConsoleError, SetSearchError (Some SearchFailed)])"

text \<open>
  What \<^verbatim>\<open>searchWooCommerceData\<close> has done when it reaches the \<^verbatim>\<open>await\<close> of line 106, the
  customer request issued and not yet settled (or when it returns, the credentials
  missing).
\<close>

definition searchWooCommerceData_start :: "config \<Rightarrow> string \<Rightarrow> effect list" where
  "searchWooCommerceData_start cfg email =
     SetSearchError None #
     (case credentials cfg of
        Inl err \<Rightarrow> [ConsoleError, SetSearchError (Some SearchFailed)]
      | Inr (wooCommerceUrl, consumerKey, consumerSecret) \<Rightarrow>
          [AxiosGet (GetCustomers (wooCommerceUrl @ ''/wp-json/wc/v3/customers'')
             consumerKey consumerSecret email)])"

text \<open>
  Which of its three returns \<^verbatim>\<open>renderWooCommerceData\<close> (lines 160-205) takes: the error
  alone, the not-found text, or the customer with the orders.
\<close>

datatype view =
    ErrorView message
  | NoCustomerView
  | CustomerView wooCommerceCustomer "wooCommerceOrder list"

definition renderWooCommerceData :: "dashboard \<Rightarrow> view" where
  "renderWooCommerceData s =
     (case searchError s of
        Some m \<Rightarrow> ErrorView m
      | None \<Rightarrow>
     (case customer s of
        None \<Rightarrow> NoCustomerView
      | Some c \<Rightarrow> CustomerView c (orders s)))"

section \<open>UserSearch.tsx\<close>

record wooCommerceUser =
  u_id :: int
  u_email :: string
  u_username :: string
  u_first_name :: string
  u_last_name :: string

text \<open>
  The four messages the search view shows: line 58 (\<^verbatim>\<open>Failed to process Chatwoot
  data.\<close>), line 88 (\<^verbatim>\<open>No users found for email: ...\<close>, with the email), line 101
  (\<^verbatim>\<open>Error fetching users: ...\<close>, with the status and the status text) and line 103
  (\<^verbatim>\<open>An unexpected error occurred while fetching users.\<close>).
\<close>

datatype message_us =
    ProcessFailed_us
  | NoUsersFound string
  | HttpError nat string
  | UnexpectedError

record userSearch =
  searchEmail :: string
  users :: "wooCommerceUser list"
  loading :: bool
  error_us :: "message_us option"
  page :: int
  hasMore :: bool
  chatwootData_us :: jsvalue

text \<open>The \<^verbatim>\<open>useState\<close> initial values, lines 22-28.\<close>

definition initial_us :: userSearch where
  "initial_us = \<lparr>searchEmail = [], users = [], loading = False, error_us = None, page = 1,
     hasMore = True, chatwootData_us = JNull\<rparr>"

text \<open>
  The updater function of lines 91-96, applied to the list that is current when the
  update is processed.
\<close>

definition mergeUsers :: "wooCommerceUser list \<Rightarrow> wooCommerceUser list \<Rightarrow> wooCommerceUser list" where
  "mergeUsers prevUsers data =
     prevUsers @
     filter (\<lambda>newUser. \<not> list_ex (\<lambda>existingUser. u_id existingUser = u_id newUser) prevUsers)
       data"

text \<open>
  \<open>SetUsersMerge data\<close> is the call of \<^verbatim>\<open>setUsers\<close> with the updater of lines 91-96,
  \<open>SetPageNext\<close> the call of \<^verbatim>\<open>setPage\<close> with the updater of line 119.
\<close>

datatype effect_us =
    SetSearchEmail string
  | SetUsers "wooCommerceUser list"
  | SetUsersMerge "wooCommerceUser list"
  | SetLoading bool
  | SetError_us "message_us option"
  | SetPage int
  | SetPageNext
  | SetHasMore bool
  | SetChatwootData_us jsvalue
  | AxiosGet_us request
  | ConsoleError_us

fun apply_effect_us :: "effect_us \<Rightarrow> userSearch \<Rightarrow> userSearch" where
  "apply_effect_us (SetSearchEmail e) s = s\<lparr>searchEmail := e\<rparr>"
| "apply_effect_us (SetUsers us) s = s\<lparr>users := us\<rparr>"
| "apply_effect_us (SetUsersMerge data) s = s\<lparr>users := mergeUsers (users s) data\<rparr>"
| "apply_effect_us (SetLoading b) s = s\<lparr>loading := b\<rparr>"
| "apply_effect_us (SetError_us e) s = s\<lparr>error_us := e\<rparr>"
| "apply_effect_us (SetPage n) s = s\<lparr>page := n\<rparr>"
| "apply_effect_us SetPageNext s = s\<lparr>page := page s + 1\<rparr>"
| "apply_effect_us (SetHasMore b) s = s\<lparr>hasMore := b\<rparr>"
| "apply_effect_us (SetChatwootData_us v) s = s\<lparr>chatwootData_us := v\<rparr>"
| "apply_effect_us (AxiosGet_us r) s = s"
| "apply_effect_us ConsoleError_us s = s"

fun run_us :: "effect_us list \<Rightarrow> userSearch \<Rightarrow> userSearch" where
  "run_us [] s = s"
| "run_us (e # es) s = run_us es (apply_effect_us e s)"

fun requests_us :: "effect_us list \<Rightarrow> request list" where
  "requests_us [] = []"
| "requests_us (AxiosGet_us r # es) = r # requests_us es"
| "requests_us (e # es) = requests_us es"

text \<open>\<^verbatim>\<open>handleChatwootMessage\<close>, lines 44-60.\<close>

definition handleChatwootMessage_us ::
  "(string \<Rightarrow> jsvalue option) \<Rightarrow> jsvalue \<Rightarrow> effect_us list" where
  "handleChatwootMessage_us JSON_parse d =
     (case decode JSON_parse d of
        Inr eventData \<Rightarrow> [SetChatwootData_us eventData]
      | Inl err \<Rightarrow> [ConsoleError_us, SetError_us (Some ProcessFailed_us)])"

text \<open>
  \<^verbatim>\<open>fetchUsers\<close>, lines 62-109, in the two parts that the \<^verbatim>\<open>await\<close> of line 75 separates.
  The \<^verbatim>\<open>try\<close> block up to the call of \<^verbatim>\<open>axios.get\<close> (lines 67-85) throws or gives the
  request; \<open>renderedPage\<close> is the \<^verbatim>\<open>page\<close> constant of the render whose \<^verbatim>\<open>fetchUsers\<close> is running.
\<close>

definition fetchUsers_try_request :: "config \<Rightarrow> int \<Rightarrow> string \<Rightarrow> exn + request" where
  "fetchUsers_try_request cfg renderedPage email =
     (case credentials cfg of
        Inl err \<Rightarrow> Inl err
      | Inr (wooCommerceUrl, consumerKey, consumerSecret) \<Rightarrow>
          Inr (GetCustomersPage (wooCommerceUrl @ ''/wp-json/wc/v3/customers'')
                 consumerKey consumerSecret email 20 renderedPage))"

text \<open>
  The rest of the \<^verbatim>\<open>try\<close> block (lines 87-98), once the request has settled;
  \<^verbatim>\<open>response.data\<close> is taken at its declared type.
\<close>

definition fetchUsers_try_response ::
  "string \<Rightarrow> wooCommerceUser list outcome \<Rightarrow> exn + effect_us list" where
  "fetchUsers_try_response email response =
     (case response of
        Rejected r \<Rightarrow> Inl (AxiosError r)
      | Fulfilled data \<Rightarrow>
          Inr (if length data = 0
               then [SetError_us (Some (NoUsersFound email)), SetUsers []]
               else [SetUsersMerge data, SetHasMore (length data = 20)]))"

text \<open>The \<^verbatim>\<open>catch\<close> block, lines 99-105, and the \<^verbatim>\<open>finally\<close> block, lines 106-108.\<close>

fun fetchUsers_catch :: "exn \<Rightarrow> effect_us list" where
  "fetchUsers_catch (AxiosError (Some (status, statusText))) =
     [SetError_us (Some (HttpError status statusText)), ConsoleError_us]"
| "fetchUsers_catch err = [SetError_us (Some UnexpectedError), ConsoleError_us]"

definition fetchUsers_finally :: "effect_us list" where
  "fetchUsers_finally = [SetLoading False]"

text \<open>What \<^verbatim>\<open>fetchUsers\<close> does when it is called, up to the \<^verbatim>\<open>await\<close>.\<close>

definition fetchUsers_start :: "config \<Rightarrow> int \<Rightarrow> string \<Rightarrow> effect_us list" where
  "fetchUsers_start cfg renderedPage email =
     [SetLoading True, SetError_us None] @
     (case fetchUsers_try_request cfg renderedPage email of
        Inl err \<Rightarrow> fetchUsers_catch err @ fetchUsers_finally
      | Inr req \<Rightarrow> [AxiosGet_us req])"

text \<open>What it does when the awaited request has settled.\<close>

definition fetchUsers_resume :: "string \<Rightarrow> wooCommerceUser list outcome \<Rightarrow> effect_us list" where
  "fetchUsers_resume email response =
     (case fetchUsers_try_response email response of
        Inl err \<Rightarrow> fetchUsers_catch err
      | Inr effs \<Rightarrow> effs) @ fetchUsers_finally"

text \<open>The whole call, the request settling as \<open>response\<close>.\<close>

definition fetchUsers ::
  "config \<Rightarrow> int \<Rightarrow> string \<Rightarrow> wooCommerceUser list outcome \<Rightarrow> effect_us list" where
  "fetchUsers cfg renderedPage email response =
     fetchUsers_start cfg renderedPage email @
     (case fetchUsers_try_request cfg renderedPage email of
        Inl err \<Rightarrow> []
      | Inr req \<Rightarrow> fetchUsers_resume email response)"

text \<open>
  \<^verbatim>\<open>handleSearch\<close>, lines 111-116, of the render of state \<open>s\<close>, up to the \<^verbatim>\<open>await\<close> inside
  \<^verbatim>\<open>fetchUsers\<close>: \<^verbatim>\<open>searchEmail\<close> and the \<^verbatim>\<open>page\<close> that \<^verbatim>\<open>fetchUsers\<close> reads are the
  constants of that render.
\<close>

definition handleSearch :: "config \<Rightarrow> userSearch \<Rightarrow> effect_us list" where
  "handleSearch cfg s =
     [SetUsers [], SetPage 1] @ fetchUsers_start cfg (page s) (searchEmail s)"

text \<open>\<^verbatim>\<open>loadMore\<close>, lines 118-120.\<close>

definition loadMore :: "effect_us list" where
  "loadMore = [SetPageNext]"

text \<open>
  A sequence of result pages, each the data of a fulfilled request, handled one after
  the other by the second part of \<^verbatim>\<open>fetchUsers\<close>.
\<close>

fun fetchUsers_pages :: "string \<Rightarrow> wooCommerceUser list list \<Rightarrow> userSearch \<Rightarrow> userSearch" where
  "fetchUsers_pages email [] s = s"
| "fetchUsers_pages email (data # pages) s =
     fetchUsers_pages email pages (run_us (fetchUsers_resume email (Fulfilled data)) s)"

text \<open>
  The accumulator as the specification words it: of a list of arrivals, the first arrival
  of every id not seen before, in the order of arrival.
\<close>

fun firstArrivals :: "int set \<Rightarrow> wooCommerceUser list \<Rightarrow> wooCommerceUser list" where
  "firstArrivals seen [] = []"
| "firstArrivals seen (u # us) =
     (if u_id u \<in> seen then firstArrivals seen us
      else u # firstArrivals (insert (u_id u) seen) us)"

section \<open>Example inputs\<close>

definition user :: "nat \<Rightarrow> wooCommerceUser" where
  "user n = \<lparr>u_id = int n, u_email = ''a@b.com'', u_username = [], u_first_name = [],
     u_last_name = []\<rparr>"

definition configured :: config where
  "configured = \<lparr>woocommerce_url = Some ''https://shop.example'',
     woocommerce_consumer_key = Some ''ck'', woocommerce_consumer_secret = Some ''cs''\<rparr>"

definition unconfigured :: config where
  "unconfigured = \<lparr>woocommerce_url = None, woocommerce_consumer_key = None,
     woocommerce_consumer_secret = None\<rparr>"

text \<open>A stand-in for \<^verbatim>\<open>JSON.parse\<close> on the three strings the examples use.\<close>

definition parse_example :: "string \<Rightarrow> jsvalue option" where
  "parse_example s =
     (if s = ''null'' then Some JNull
      else if s = ''{}'' then Some (JObject [])
      else None)"

text \<open>
  The search view after the email was typed, the form submitted, and the request for the
  first page fulfilled with 20 customers; a second page of 5 customers whose first
  repeats the id of the last customer of the first page.
\<close>

definition typed_us :: userSearch where
  "typed_us = initial_us\<lparr>searchEmail := ''a@b.com''\<rparr>"

definition firstPage :: "wooCommerceUser list" where
  "firstPage = map user [1..<21]"

definition secondPage :: "wooCommerceUser list" where
  "secondPage = map user [20..<25]"

definition populated_us :: userSearch where
  "populated_us =
     run_us (fetchUsers_resume ''a@b.com'' (Fulfilled firstPage))
       (run_us (handleSearch configured typed_us) typed_us)"

text \<open>
  From there, the Load More button pressed and a new query typed (line 129).
\<close>

definition requeried_us :: userSearch where
  "requeried_us = run_us [SetSearchEmail ''c@d.com''] (run_us loadMore populated_us)"

definition customer7 :: wooCommerceCustomer where
  "customer7 = \<lparr>c_id = 7, c_email = ''a@b.com'', c_first_name = ''A'', c_last_name = ''B''\<rparr>"

text \<open>A context as the host sends it, with the contact's email.\<close>

definition context_example :: jsvalue where
  "context_example =
     JObject [(''data'', JObject [(''contact'', JObject [(''email'', JString ''a@b.com'')])])]"

section \<open>The accumulator of the search view\<close>

lemma not_existing_iff:
  "(\<not> list_ex (\<lambda>existingUser. u_id existingUser = u_id newUser) prevUsers) =
     (u_id newUser \<notin> u_id ` set prevUsers)"
  by (force simp: list_ex_iff)

lemma mergeUsers_filter:
  "mergeUsers prevUsers data =
     prevUsers @ filter (\<lambda>u. u_id u \<notin> u_id ` set prevUsers) data"
  by (simp add: mergeUsers_def not_existing_iff)

lemma mergeUsers_ids:
  "u_id ` set (mergeUsers prevUsers data) = u_id ` set prevUsers \<union> u_id ` set data"
  by (auto simp: mergeUsers_filter)

lemma mergeUsers_distinct:
  assumes "distinct (map u_id prevUsers)" and "distinct (map u_id data)"
  shows "distinct (map u_id (mergeUsers prevUsers data))"
  using assms by (auto simp: mergeUsers_filter distinct_map_filter) (metis imageI)

lemma firstArrivals_append:
  "firstArrivals seen (xs @ ys) =
     firstArrivals seen xs @ firstArrivals (seen \<union> u_id ` set xs) ys"
  by (induction xs arbitrary: seen) (simp_all add: insert_absorb)

lemma firstArrivals_distinct:
  "distinct (map u_id xs) \<Longrightarrow> firstArrivals seen xs = filter (\<lambda>u. u_id u \<notin> seen) xs"
proof (induction xs arbitrary: seen)
  case Nil
  then show ?case by simp
next
  case (Cons x xs)
  have "filter (\<lambda>u. u_id u \<notin> insert (u_id x) seen) xs = filter (\<lambda>u. u_id u \<notin> seen) xs"
    using Cons.prems by (intro filter_cong) (auto, metis imageI)
  with Cons show ?case by simp
qed

lemma users_resume_Fulfilled:
  "users (run_us (fetchUsers_resume email (Fulfilled data)) s) =
     (if data = [] then [] else mergeUsers (users s) data)"
  by (simp add: fetchUsers_resume_def fetchUsers_try_response_def fetchUsers_finally_def)

lemma hasMore_resume_Fulfilled:
  "hasMore (run_us (fetchUsers_resume email (Fulfilled data)) s) =
     (if data = [] then hasMore s else length data = 20)"
  by (simp add: fetchUsers_resume_def fetchUsers_try_response_def fetchUsers_finally_def)

lemma fetchUsers_pages_distinct:
  "distinct (map u_id (users s)) \<Longrightarrow> \<forall>data\<in>set pages. distinct (map u_id data) \<Longrightarrow>
     distinct (map u_id (users (fetchUsers_pages email pages s)))"
proof (induction pages arbitrary: s)
  case Nil
  then show ?case by simp
next
  case (Cons data pages)
  have "distinct (map u_id (users (run_us (fetchUsers_resume email (Fulfilled data)) s)))"
    using Cons.prems by (simp add: users_resume_Fulfilled mergeUsers_distinct)
  with Cons show ?case by simp
qed

lemma fetchUsers_pages_firstArrivals:
  "distinct (map u_id (users s)) \<Longrightarrow> \<forall>data\<in>set pages. distinct (map u_id data) \<Longrightarrow>
     [] \<notin> set pages \<Longrightarrow>
     users (fetchUsers_pages email pages s) = firstArrivals {} (users s @ concat pages)"
proof (induction pages arbitrary: s)
  case Nil
  then show ?case by (simp add: firstArrivals_distinct)
next
  case (Cons data pages)
  let ?s = "run_us (fetchUsers_resume email (Fulfilled data)) s"
  have u: "users ?s = mergeUsers (users s) data"
    using Cons.prems by (auto simp: users_resume_Fulfilled)
  have d: "distinct (map u_id (users ?s))"
    using Cons.prems by (simp add: u mergeUsers_distinct)
  have "users (fetchUsers_pages email (data # pages) s) =
          firstArrivals {} (users ?s @ concat pages)"
    using Cons.IH [OF d] Cons.prems by simp
  also have "\<dots> = mergeUsers (users s) data @
      firstArrivals (u_id ` set (users s) \<union> u_id ` set data) (concat pages)"
    using d by (simp add: firstArrivals_append firstArrivals_distinct u mergeUsers_ids)
  also have "\<dots> = firstArrivals {} (users s @ data @ concat pages)"
    using Cons.prems
    by (simp add: firstArrivals_append firstArrivals_distinct mergeUsers_filter Un_commute)
  finally show ?case by simp
qed

text \<open>
  The state of the search view after each part of \<^verbatim>\<open>fetchUsers\<close>, field by field.
\<close>

lemma run_us_append: "run_us (es @ fs) s = run_us fs (run_us es s)"
  by (induction es arbitrary: s) simp_all

lemma fetchUsers_catch_cases:
  "fetchUsers_catch err =
     [SetError_us (Some (case err of
        AxiosError (Some (status, statusText)) \<Rightarrow> HttpError status statusText
      | _ \<Rightarrow> UnexpectedError)), ConsoleError_us]"
  by (cases err rule: fetchUsers_catch.cases) simp_all

lemma users_resume_Rejected:
  "users (run_us (fetchUsers_resume email (Rejected r)) s) = users s"
  by (simp add: fetchUsers_resume_def fetchUsers_try_response_def fetchUsers_finally_def
      fetchUsers_catch_cases)

lemma error_resume_Rejected:
  "error_us (run_us (fetchUsers_resume email (Rejected r)) s) =
     Some (case r of Some (status, statusText) \<Rightarrow> HttpError status statusText
           | None \<Rightarrow> UnexpectedError)"
  by (cases r)
    (auto simp: fetchUsers_resume_def fetchUsers_try_response_def fetchUsers_finally_def)

lemma users_start: "users (run_us (fetchUsers_start cfg renderedPage email) s) = users s"
  by (cases "fetchUsers_try_request cfg renderedPage email")
    (simp_all add: fetchUsers_start_def fetchUsers_finally_def fetchUsers_catch_cases)

lemma users_populated: "users populated_us = firstPage"
  by (simp add: populated_us_def users_resume_Fulfilled handleSearch_def run_us_append
      users_start firstPage_def mergeUsers_def)

lemma length_firstPage: "length firstPage = 20"
  by (simp add: firstPage_def)

text \<open>
  C3, as amended. When no page repeats an id within itself, and the accumulated list
  repeats none at the start, then after any sequence of fulfilled pages the accumulated
  list holds no id twice; and when no page of the sequence is empty (an empty page
  clears the list, line 89), the list is the first arrival of every id, in the order of
  arrival.
\<close>

theorem accumulator_unique_first_arrival:
  assumes "distinct (map u_id (users s))"
    and "\<forall>data\<in>set pages. distinct (map u_id data)"
  shows "distinct (map u_id (users (fetchUsers_pages email pages s))) \<and>
    ([] \<notin> set pages \<longrightarrow>
       users (fetchUsers_pages email pages s) = firstArrivals {} (users s @ concat pages))"
  using assms fetchUsers_pages_distinct fetchUsers_pages_firstArrivals by blast

theorem accumulator_unique_first_arrival_witness:
  "distinct (map u_id (users initial_us)) \<and>
   distinct (map u_id [user 1, user 2]) \<and> distinct (map u_id [user 2, user 3]) \<and>
   distinct (map u_id (users
     (fetchUsers_pages ''a@b.com'' [[user 1, user 2], [user 2, user 3]] initial_us))) \<and>
   users (fetchUsers_pages ''a@b.com'' [[user 1, user 2], [user 2, user 3]] initial_us) =
     [user 1, user 2, user 3]"
proof -
  have d0: "distinct (map u_id (users initial_us))"
    by (simp add: initial_us_def)
  have d1: "\<forall>data\<in>set [[user 1, user 2], [user 2, user 3]]. distinct (map u_id data)"
    by (simp add: user_def)
  have "firstArrivals {} (users initial_us @ concat [[user 1, user 2], [user 2, user 3]]) =
      [user 1, user 2, user 3]"
    by (simp add: initial_us_def user_def)
  with accumulator_unique_first_arrival [OF d0 d1, of "''a@b.com''"] d0 show ?thesis
    by (simp add: user_def)
qed

text \<open>
  C3 as stated fails: a page that holds the same id twice, merged into the empty
  accumulator, leaves both entries in the list, since line 93 compares a new customer
  with the previous list only.
\<close>

theorem accumulator_repeats_id_within_page:
  "\<not> distinct (map u_id (users (fetchUsers_pages ''a@b.com'' [[user 1, user 1]] initial_us)))"
  by (simp add: users_resume_Fulfilled mergeUsers_def initial_us_def)

section \<open>The search view: paging\<close>

text \<open>
  What a fulfilled page does to \<^verbatim>\<open>hasMore\<close> is \<open>hasMore_resume_Fulfilled\<close> above: a
  page that is not empty sets it to whether the page holds 20 customers, an empty page
  leaves it as it was.
\<close>

text \<open>
  C1 at the failing input: the first search of a session is answered with an empty page.
  The branch of lines 87-89 sets the error and clears the list and does not call
  \<^verbatim>\<open>setHasMore\<close>, so \<^verbatim>\<open>hasMore\<close> keeps its initial value \<^verbatim>\<open>true\<close>.
\<close>

theorem empty_page_leaves_hasMore_true:
  "hasMore (run_us (fetchUsers_resume ''a@b.com'' (Fulfilled []))
      (run_us (handleSearch configured typed_us) typed_us)) \<and>
   users (run_us (fetchUsers_resume ''a@b.com'' (Fulfilled []))
      (run_us (handleSearch configured typed_us) typed_us)) = [] \<and>
   error_us (run_us (fetchUsers_resume ''a@b.com'' (Fulfilled []))
      (run_us (handleSearch configured typed_us) typed_us)) = Some (NoUsersFound ''a@b.com'')"
  by (simp add: fetchUsers_resume_def fetchUsers_try_response_def fetchUsers_finally_def
      handleSearch_def fetchUsers_start_def fetchUsers_try_request_def credentials_def
      configured_def typed_us_def initial_us_def)

text \<open>
  C2 at the failing input: page 1 returned 20 customers and Load More is pressed.
  \<^verbatim>\<open>loadMore\<close> calls \<^verbatim>\<open>setPage\<close> and nothing else, and no effect of the component depends
  on \<^verbatim>\<open>page\<close>: no request is issued, the list keeps its 20 entries and \<^verbatim>\<open>hasMore\<close> stays
  \<^verbatim>\<open>true\<close>.
\<close>

theorem loadMore_issues_no_request:
  "requests_us loadMore = [] \<and>
   page (run_us loadMore populated_us) = 2 \<and>
   users (run_us loadMore populated_us) = firstPage \<and>
   length (users (run_us loadMore populated_us)) = 20 \<and>
   hasMore (run_us loadMore populated_us)"
proof -
  have "page populated_us = 1" and "hasMore populated_us"
    by (simp_all add: populated_us_def fetchUsers_resume_def fetchUsers_try_response_def
        fetchUsers_finally_def handleSearch_def fetchUsers_start_def fetchUsers_try_request_def
        credentials_def configured_def typed_us_def initial_us_def firstPage_def)
  then show ?thesis
    by (simp add: loadMore_def users_populated length_firstPage)
qed

text \<open>
  The merge itself does what the scenario of C2 expects, once a response for the second
  page is handled: 24 entries, and \<^verbatim>\<open>hasMore\<close> false.
\<close>

lemma second_page_merged:
  "length (users (run_us (fetchUsers_resume ''a@b.com'' (Fulfilled secondPage))
      (run_us loadMore populated_us))) = 24 \<and>
   \<not> hasMore (run_us (fetchUsers_resume ''a@b.com'' (Fulfilled secondPage))
      (run_us loadMore populated_us))"
proof -
  have "secondPage \<noteq> []" and "length secondPage = 5"
    by (simp_all add: secondPage_def)
  moreover have "users (run_us loadMore populated_us) = firstPage"
    by (simp add: loadMore_def users_populated)
  moreover have "length (mergeUsers firstPage secondPage) = 24"
    by code_simp
  ultimately show ?thesis
    by (simp add: users_resume_Fulfilled hasMore_resume_Fulfilled)
qed

text \<open>
  What \<^verbatim>\<open>handleSearch\<close> does in general: it clears the list and resets the page in the
  state, and the request carries the page of the render it was called from.
\<close>

lemma handleSearch_state:
  "users (run_us (handleSearch cfg s) s') = [] \<and> page (run_us (handleSearch cfg s) s') = 1"
  by (cases "fetchUsers_try_request cfg (page s) (searchEmail s)")
    (simp_all add: handleSearch_def fetchUsers_start_def fetchUsers_finally_def
      fetchUsers_catch_cases)

lemma handleSearch_request:
  "credentials cfg = Inr (wooCommerceUrl, consumerKey, consumerSecret) \<Longrightarrow>
   requests_us (handleSearch cfg s) =
     [GetCustomersPage (wooCommerceUrl @ ''/wp-json/wc/v3/customers'') consumerKey
        consumerSecret (searchEmail s) 20 (page s)]"
  by (simp add: handleSearch_def fetchUsers_start_def fetchUsers_try_request_def)

text \<open>
  C4 at the failing input: after Load More the rendered page is 2; a new query is typed
  and submitted. The list is cleared and the page in the state is reset to 1, and the
  request that \<^verbatim>\<open>handleSearch\<close> issues asks for page 2: \<^verbatim>\<open>fetchUsers\<close> reads the \<^verbatim>\<open>page\<close>
  constant of the render in which the form was submitted (line 83), which
  \<^verbatim>\<open>setPage(1)\<close> does not change.
\<close>

theorem handleSearch_requests_rendered_page:
  "page requeried_us = 2 \<and>
   requests_us (handleSearch configured requeried_us) =
     [GetCustomersPage ''https://shop.example/wp-json/wc/v3/customers'' ''ck'' ''cs''
        ''c@d.com'' 20 2] \<and>
   page (run_us (handleSearch configured requeried_us) requeried_us) = 1 \<and>
   users (run_us (handleSearch configured requeried_us) requeried_us) = []"
proof -
  have p: "page requeried_us = 2" and e: "searchEmail requeried_us = ''c@d.com''"
    by (simp_all add: requeried_us_def loadMore_def populated_us_def fetchUsers_resume_def
        fetchUsers_try_response_def fetchUsers_finally_def handleSearch_def fetchUsers_start_def
        fetchUsers_try_request_def credentials_def configured_def typed_us_def initial_us_def
        firstPage_def)
  have c: "credentials configured = Inr (''https://shop.example'', ''ck'', ''cs'')"
    by (simp add: credentials_def configured_def)
  show ?thesis
    using handleSearch_request [OF c, of requeried_us] handleSearch_state p e by simp
qed

text \<open>
  C9, as amended. A fetch whose request is rejected, with a status or without one,
  reports the error and leaves the accumulated list as it was; so does the first part of
  \<^verbatim>\<open>fetchUsers\<close>, whatever the configuration.
\<close>

theorem failed_fetch_keeps_users:
  "users (run_us (fetchUsers_resume email (Rejected r)) s) = users s \<and>
   error_us (run_us (fetchUsers_resume email (Rejected r)) s) =
     Some (case r of Some (status, statusText) \<Rightarrow> HttpError status statusText
           | None \<Rightarrow> UnexpectedError) \<and>
   users (run_us (fetchUsers_start cfg renderedPage email) s) = users s"
  by (simp add: users_resume_Rejected error_resume_Rejected users_start)

theorem failed_fetch_keeps_users_witness:
  "users (run_us (fetchUsers_resume ''a@b.com'' (Rejected (Some (503, ''Service Unavailable''))))
      populated_us) = firstPage \<and>
   error_us (run_us (fetchUsers_resume ''a@b.com'' (Rejected (Some (503, ''Service Unavailable''))))
      populated_us) = Some (HttpError 503 ''Service Unavailable'')"
  using failed_fetch_keeps_users
    [of "''a@b.com''" "Some (503, ''Service Unavailable'')" populated_us]
  by (simp add: users_populated)

text \<open>
  C9 as stated fails for a fetch that is answered with an empty page: the error of line
  88 is reported and line 89 clears the 20 customers accumulated before.
\<close>

theorem empty_page_clears_users:
  "length (users (run_us loadMore populated_us)) = 20 \<and>
   users (run_us (fetchUsers_resume ''a@b.com'' (Fulfilled []))
     (run_us loadMore populated_us)) = [] \<and>
   error_us (run_us (fetchUsers_resume ''a@b.com'' (Fulfilled []))
     (run_us loadMore populated_us)) = Some (NoUsersFound ''a@b.com'')"
proof -
  have "users (run_us loadMore populated_us) = firstPage"
    by (simp add: loadMore_def users_populated)
  moreover have "error_us (run_us (fetchUsers_resume ''a@b.com'' (Fulfilled []))
      (run_us loadMore populated_us)) = Some (NoUsersFound ''a@b.com'')"
    by (simp add: fetchUsers_resume_def fetchUsers_try_response_def fetchUsers_finally_def)
  ultimately show ?thesis
    by (simp add: length_firstPage users_resume_Fulfilled)
qed

section \<open>Credentials\<close>

lemma credentials_absent:
  "woocommerce_url cfg = None \<or> woocommerce_consumer_key cfg = None \<or>
     woocommerce_consumer_secret cfg = None \<Longrightarrow>
   credentials cfg = Inl ConfigurationMissing"
  by (auto simp: credentials_def split: option.splits)

text \<open>
  C6, as amended. When one of the three credentials is absent, the \<^verbatim>\<open>try\<close> block of
  the detail resolution and the one of the paginated search both end with the
  configuration error before anything else is done, and no request is issued: not by the
  detail resolution, not by \<^verbatim>\<open>fetchUsers\<close>, not by a submitted search. The \<^verbatim>\<open>catch\<close>
  blocks do not tell the configuration error from any other: the attempt reports the
  search failure of line 133 in the detail view and the unexpected error of line 103 in
  the search view.
\<close>

theorem missing_credentials_no_request:
  assumes "woocommerce_url cfg = None \<or> woocommerce_consumer_key cfg = None \<or>
     woocommerce_consumer_secret cfg = None"
  shows "searchWooCommerceData_try cfg email customerResponse ordersResponse =
      ([], Some ConfigurationMissing) \<and>
    requests (searchWooCommerceData cfg email customerResponse ordersResponse) = [] \<and>
    searchError (run (searchWooCommerceData cfg email customerResponse ordersResponse) s) =
      Some SearchFailed \<and>
    fetchUsers_try_request cfg renderedPage email = Inl ConfigurationMissing \<and>
    requests_us (fetchUsers cfg renderedPage email response) = [] \<and>
    requests_us (handleSearch cfg t) = [] \<and>
    error_us (run_us (fetchUsers cfg renderedPage email response) t) = Some UnexpectedError"
proof -
  have c: "credentials cfg = Inl ConfigurationMissing"
    using assms by (rule credentials_absent)
  have r: "\<And>p e. fetchUsers_try_request cfg p e = Inl ConfigurationMissing"
    by (simp add: fetchUsers_try_request_def c)
  have "searchWooCommerceData_try cfg email customerResponse ordersResponse =
      ([], Some ConfigurationMissing)"
    by (simp add: searchWooCommerceData_try_def c)
  then show ?thesis
    by (simp add: searchWooCommerceData_def r fetchUsers_def fetchUsers_start_def
        fetchUsers_finally_def handleSearch_def)
qed

theorem missing_credentials_no_request_witness:
  "woocommerce_url unconfigured = None \<and>
   searchWooCommerceData_try unconfigured ''a@b.com'' (Fulfilled [customer7]) (Fulfilled []) =
     ([], Some ConfigurationMissing) \<and>
   requests (searchWooCommerceData unconfigured ''a@b.com'' (Fulfilled [customer7])
     (Fulfilled [])) = [] \<and>
   requests_us (fetchUsers unconfigured 1 ''a@b.com'' (Fulfilled firstPage)) = []"
proof -
  have u: "woocommerce_url unconfigured = None"
    by (simp add: unconfigured_def)
  then have "woocommerce_url unconfigured = None \<or>
      woocommerce_consumer_key unconfigured = None \<or>
      woocommerce_consumer_secret unconfigured = None"
    by simp
  from missing_credentials_no_request [OF this] u show ?thesis
    by simp
qed

text \<open>
  C6 as stated fails: with no credential configured, what the attempt reports, and the
  whole state it leaves, is what a request that was sent and got no answer leaves. No
  error of the configuration's own is surfaced in either view.
\<close>

theorem missing_credentials_reported_as_generic_failure:
  "reported (searchWooCommerceData unconfigured ''a@b.com'' (Fulfilled [customer7])
     (Fulfilled [])) = [SearchFailed] \<and>
   run (searchWooCommerceData unconfigured ''a@b.com'' (Fulfilled [customer7]) (Fulfilled []))
     initial =
   run (searchWooCommerceData configured ''a@b.com'' (Rejected None) (Fulfilled [])) initial \<and>
   error_us (run_us (fetchUsers unconfigured 1 ''a@b.com'' (Fulfilled firstPage)) typed_us) =
     Some UnexpectedError \<and>
   run_us (fetchUsers unconfigured 1 ''a@b.com'' (Fulfilled firstPage)) typed_us =
   run_us (fetchUsers configured 1 ''a@b.com'' (Rejected None)) typed_us"
  by (simp add: searchWooCommerceData_def searchWooCommerceData_try_def credentials_def
      unconfigured_def configured_def initial_def fetchUsers_def fetchUsers_start_def
      fetchUsers_try_request_def fetchUsers_resume_def fetchUsers_try_response_def
      fetchUsers_finally_def typed_us_def initial_us_def)

section \<open>Detail resolution\<close>

lemma searchWooCommerceData_start_prefix:
  "\<exists>rest. searchWooCommerceData cfg email customerResponse ordersResponse =
     searchWooCommerceData_start cfg email @ rest"
  by (cases "credentials cfg"; cases customerResponse; cases ordersResponse)
    (auto simp: searchWooCommerceData_def searchWooCommerceData_try_def
      searchWooCommerceData_start_def Let_def split: list.splits)

text \<open>
  C7, as amended. With the credentials present, when the customer request is rejected, or
  the customer request gives a customer and the orders request is rejected, then the
  resolution reports the search failure, once; when the failing call returns, the
  failure is what the view shows, in place of the customer; \<^verbatim>\<open>setOrders\<close> is not called;
  and no request follows the one that failed.
\<close>

theorem detail_failure_reports_once:
  assumes "credentials cfg = Inr (wooCommerceUrl, consumerKey, consumerSecret)"
    and "customerResponse = Rejected r \<or>
      (customerResponse = Fulfilled (c # cs) \<and> ordersResponse = Rejected r)"
  shows "reported (searchWooCommerceData cfg email customerResponse ordersResponse) =
      [SearchFailed] \<and>
    searchError (run (searchWooCommerceData cfg email customerResponse ordersResponse) s) =
      Some SearchFailed \<and>
    renderWooCommerceData
      (run (searchWooCommerceData cfg email customerResponse ordersResponse) s) =
      ErrorView SearchFailed \<and>
    orders (run (searchWooCommerceData cfg email customerResponse ordersResponse) s) =
      orders s \<and>
    requests (searchWooCommerceData cfg email customerResponse ordersResponse) =
      GetCustomers (wooCommerceUrl @ ''/wp-json/wc/v3/customers'') consumerKey consumerSecret
        email #
      (case customerResponse of
         Rejected x \<Rightarrow> []
       | Fulfilled found \<Rightarrow>
           [GetOrders (wooCommerceUrl @ ''/wp-json/wc/v3/orders'') consumerKey consumerSecret
              (c_id c)])"
  using assms(2)
proof
  assume "customerResponse = Rejected r"
  then show ?thesis
    by (simp add: searchWooCommerceData_def searchWooCommerceData_try_def assms(1)
        renderWooCommerceData_def)
next
  assume "customerResponse = Fulfilled (c # cs) \<and> ordersResponse = Rejected r"
  then show ?thesis
    by (simp add: searchWooCommerceData_def searchWooCommerceData_try_def assms(1)
        renderWooCommerceData_def)
qed

theorem detail_failure_reports_once_witness:
  "credentials configured = Inr (''https://shop.example'', ''ck'', ''cs'') \<and>
   reported (searchWooCommerceData configured ''a@b.com'' (Fulfilled [customer7])
     (Rejected (Some (500, ''Internal Server Error'')))) = [SearchFailed] \<and>
   renderWooCommerceData (run (searchWooCommerceData configured ''a@b.com''
     (Fulfilled [customer7]) (Rejected (Some (500, ''Internal Server Error'')))) initial) =
     ErrorView SearchFailed \<and>
   requests (searchWooCommerceData configured ''a@b.com'' (Fulfilled [customer7])
     (Rejected (Some (500, ''Internal Server Error'')))) =
     [GetCustomers ''https://shop.example/wp-json/wc/v3/customers'' ''ck'' ''cs'' ''a@b.com'',
      GetOrders ''https://shop.example/wp-json/wc/v3/orders'' ''ck'' ''cs'' 7]"
proof -
  have c: "credentials configured = Inr (''https://shop.example'', ''ck'', ''cs'')"
    by (simp add: credentials_def configured_def)
  have f: "Fulfilled [customer7] = Rejected (Some (500, ''Internal Server Error'')) \<or>
      (Fulfilled [customer7] = Fulfilled (customer7 # []) \<and>
       (Rejected (Some (500, ''Internal Server Error'')) :: wooCommerceOrder list outcome) =
         Rejected (Some (500, ''Internal Server Error'')))"
    by simp
  from detail_failure_reports_once [OF c f, of "''a@b.com''" initial] c show ?thesis
    by (simp add: customer7_def)
qed

text \<open>
  C7 as stated fails: the customer stored at line 115 is not taken back when the orders
  request fails. The next resolution clears the error at line 95, and while its customer
  request is pending the view shows that customer with an empty order list and no
  error.
\<close>

theorem stale_customer_shown_without_error:
  "renderWooCommerceData
     (run (searchWooCommerceData configured ''a@b.com'' (Fulfilled [customer7])
        (Rejected (Some (500, ''Internal Server Error'')))) initial) =
     ErrorView SearchFailed \<and>
   searchError
     (run (searchWooCommerceData_start configured ''a@b.com'')
        (run (searchWooCommerceData configured ''a@b.com'' (Fulfilled [customer7])
           (Rejected (Some (500, ''Internal Server Error'')))) initial)) = None \<and>
   renderWooCommerceData
     (run (searchWooCommerceData_start configured ''a@b.com'')
        (run (searchWooCommerceData configured ''a@b.com'' (Fulfilled [customer7])
           (Rejected (Some (500, ''Internal Server Error'')))) initial)) =
     CustomerView customer7 []"
  by (simp add: searchWooCommerceData_def searchWooCommerceData_try_def
      searchWooCommerceData_start_def credentials_def configured_def initial_def
      renderWooCommerceData_def)

section \<open>The messaging bridge\<close>

text \<open>
  C8. When \<^verbatim>\<open>JSON.parse\<close> of the string \<open>m\<close> gives the object \<open>obj\<close>, both handlers do
  the same on the string and on the object delivered as it is: the same effects, so the
  same state.
\<close>

theorem string_and_object_payload_agree:
  assumes "JSON_parse m = Some obj" and "typeof obj = TypeObject"
  shows "handleChatwootMessage JSON_parse (JString m) = handleChatwootMessage JSON_parse obj \<and>
    run (handleChatwootMessage JSON_parse (JString m)) s =
      run (handleChatwootMessage JSON_parse obj) s \<and>
    handleChatwootMessage_us JSON_parse (JString m) = handleChatwootMessage_us JSON_parse obj \<and>
    run_us (handleChatwootMessage_us JSON_parse (JString m)) t =
      run_us (handleChatwootMessage_us JSON_parse obj) t"
proof -
  have "decode JSON_parse (JString m) = decode JSON_parse obj"
    using assms by (cases obj) simp_all
  then show ?thesis
    by (simp add: handleChatwootMessage_def handleChatwootMessage_us_def)
qed

theorem string_and_object_payload_agree_witness:
  "parse_example ''{}'' = Some (JObject []) \<and> typeof (JObject []) = TypeObject \<and>
   run (handleChatwootMessage parse_example (JString ''{}'')) initial =
     run (handleChatwootMessage parse_example (JObject [])) initial \<and>
   chatwootData (run (handleChatwootMessage parse_example (JString ''{}'')) initial) =
     JObject []"
proof -
  have p: "parse_example ''{}'' = Some (JObject [])"
    by (simp add: parse_example_def)
  have o: "typeof (JObject []) = TypeObject"
    by simp
  from string_and_object_payload_agree [of parse_example "''{}''" "JObject []" initial, OF p o] p
  show ?thesis
    by (simp add: handleChatwootMessage_def)
qed

text \<open>
  C10. \<^verbatim>\<open>null\<close>, and the string that parses to \<^verbatim>\<open>null\<close>, pass the check of the shape:
  nothing is thrown and no error is reported, and the stored context becomes \<^verbatim>\<open>null\<close>
  whatever it was. The dashboard clears its error flag; the search view leaves its own
  as it was.
\<close>

theorem null_payload_replaces_context:
  assumes "JSON_parse ''null'' = Some JNull"
  shows "decode JSON_parse JNull = Inr JNull \<and>
    decode JSON_parse (JString ''null'') = Inr JNull \<and>
    reported (handleChatwootMessage JSON_parse JNull) = [] \<and>
    reported (handleChatwootMessage JSON_parse (JString ''null'')) = [] \<and>
    chatwootData (run (handleChatwootMessage JSON_parse JNull) s) = JNull \<and>
    chatwootData (run (handleChatwootMessage JSON_parse (JString ''null'')) s) = JNull \<and>
    error (run (handleChatwootMessage JSON_parse JNull) s) = None \<and>
    error (run (handleChatwootMessage JSON_parse (JString ''null'')) s) = None \<and>
    chatwootData_us (run_us (handleChatwootMessage_us JSON_parse JNull) t) = JNull \<and>
    chatwootData_us (run_us (handleChatwootMessage_us JSON_parse (JString ''null'')) t) =
      JNull \<and>
    error_us (run_us (handleChatwootMessage_us JSON_parse JNull) t) = error_us t \<and>
    error_us (run_us (handleChatwootMessage_us JSON_parse (JString ''null'')) t) = error_us t"
  using assms by (simp add: handleChatwootMessage_def handleChatwootMessage_us_def)

theorem null_payload_replaces_context_witness:
  "parse_example ''null'' = Some JNull \<and>
   chatwootData (run (handleChatwootMessage parse_example context_example) initial) =
     context_example \<and>
   chatwootData (run (handleChatwootMessage parse_example (JString ''null''))
     (run (handleChatwootMessage parse_example context_example) initial)) = JNull \<and>
   error (run (handleChatwootMessage parse_example (JString ''null''))
     (run (handleChatwootMessage parse_example context_example) initial)) = None"
proof -
  have p: "parse_example ''null'' = Some JNull"
    by (simp add: parse_example_def)
  have "chatwootData (run (handleChatwootMessage parse_example context_example) initial) =
      context_example"
    by (simp add: handleChatwootMessage_def context_example_def)
  with null_payload_replaces_context [of parse_example
      "run (handleChatwootMessage parse_example context_example) initial", OF p] p
  show ?thesis
    by simp
qed

text \<open>
  What holds of the timeout: a context that arrives after an error was reported is
  stored and clears the error; and a timer set while no context was stored reports the
  error when it fires.
\<close>

lemma context_accepted_clears_error:
  "typeof obj = TypeObject \<Longrightarrow>
   chatwootData (run (handleChatwootMessage JSON_parse obj) s) = obj \<and>
   error (run (handleChatwootMessage JSON_parse obj) s) = None"
  by (cases obj) (simp_all add: handleChatwootMessage_def)

lemma timer_of_fetchChatwootData: "timers (fetchChatwootData s) = [chatwootData s]"
  by (simp add: fetchChatwootData_def)

text \<open>
  C5 at the failing input: the request is made while no context is stored, the host
  answers with a context before the timer fires, and the timer fires. The callback
  tests the \<^verbatim>\<open>chatwootData\<close> constant of the render in which the request was made (line
  82), which is \<^verbatim>\<open>null\<close>: the timeout error is reported although the context was
  received and is stored.
\<close>

theorem timeout_reported_after_context_received:
  "timers (fetchChatwootData initial) = [JNull] \<and>
   chatwootData (run (handleChatwootMessage parse_example context_example)
     (run (fetchChatwootData initial) initial)) = context_example \<and>
   error (run (handleChatwootMessage parse_example context_example)
     (run (fetchChatwootData initial) initial)) = None \<and>
   chatwootData (run (timeoutCallback JNull)
     (run (handleChatwootMessage parse_example context_example)
       (run (fetchChatwootData initial) initial))) = context_example \<and>
   error (run (timeoutCallback JNull)
     (run (handleChatwootMessage parse_example context_example)
       (run (fetchChatwootData initial) initial))) = Some NoResponse"
  by (simp add: fetchChatwootData_def handleChatwootMessage_def timeoutCallback_def
      context_example_def initial_def)

text \<open>
  The other way round: a request made while an earlier context is stored, and never
  answered, reports nothing when the timer fires, and the view stays loading.
\<close>

lemma timeout_silent_with_earlier_context:
  "truthy (chatwootData s) \<Longrightarrow>
   error (run (concat (map timeoutCallback (timers (fetchChatwootData s))))
     (run (fetchChatwootData s) s)) = None \<and>
   isLoading (run (concat (map timeoutCallback (timers (fetchChatwootData s))))
     (run (fetchChatwootData s) s))"
  by (simp add: fetchChatwootData_def timeoutCallback_def)

end
